theory Spec2Isabelle
  imports Main "HOL-Library.Word" "HOL-Library.Monad_Syntax"
begin

section \<open>The script provider: schema and configuration resolution\<close>

text \<open>
  A shallow embedding of \<^verbatim>\<open>script/provider.go\<close>: the schema table returned by
  \<^verbatim>\<open>Provider()\<close> and the function \<^verbatim>\<open>providerConfigure\<close> that resolves a
  \<^verbatim>\<open>*schema.ResourceData\<close> into a \<^verbatim>\<open>Config\<close>.

  Go's \<^verbatim>\<open>int\<close> is taken at 64 bits (\<^verbatim>\<open>int64(x)\<close> of an \<^verbatim>\<open>int\<close> is then a
  conversion between words of the same length). A value of type \<^verbatim>\<open>interface{}\<close> is a
  value of the datatype \<open>val\<close>; a type assertion \<^verbatim>\<open>v.(T)\<close> that does not hold panics,
  and a panic is the result \<open>None\<close>.
\<close>

subsection \<open>Dynamic values and type assertions\<close>

type_synonym goint = "64 word"

datatype val = VNil | VBool bool | VInt goint | VString string | VList "val list"

definition asList :: "val \<Rightarrow> val list option" where
  "asList v = (case v of VList xs \<Rightarrow> Some xs | _ \<Rightarrow> None)"

definition asString :: "val \<Rightarrow> string option" where
  "asString v = (case v of VString s \<Rightarrow> Some s | _ \<Rightarrow> None)"

definition asBool :: "val \<Rightarrow> bool option" where
  "asBool v = (case v of VBool b \<Rightarrow> Some b | _ \<Rightarrow> None)"

definition asInt :: "val \<Rightarrow> goint option" where
  "asInt v = (case v of VInt i \<Rightarrow> Some i | _ \<Rightarrow> None)"

definition int64 :: "goint \<Rightarrow> 64 word" where
  "int64 i = scast i"

subsection \<open>What the code reads from outside the repository\<close>

datatype hclog_Level = NoLevel | Trace | Debug | Info | Warn | Error | Off

datatype Stream = Stderr | Stdout

text \<open>
  \<^verbatim>\<open>runtime.GOOS\<close>, \<^verbatim>\<open>os.Getenv\<close> and \<^verbatim>\<open>hclog.LevelFromString\<close> are parameters
  of the model.
\<close>

record Extern =
  GOOS :: string
  Getenv :: "string \<Rightarrow> string"
  LevelFromString :: "string \<Rightarrow> hclog_Level"

record hclog_Logger =
  JSONFormat :: bool
  Output :: Stream
  Level :: hclog_Level

definition hclog_New :: "hclog_Logger \<Rightarrow> hclog_Logger" where
  "hclog_New opts = opts"

subsection \<open>The schema\<close>

datatype ValueType = TypeBool | TypeInt | TypeString | TypeList

record Schema =
  Type :: ValueType
  Optional :: bool
  Required :: bool
  Default :: "val option"
  DefaultFunc :: "((string \<Rightarrow> string) \<Rightarrow> val option) option"
  Elem :: "ValueType option"
  ValidateFunc :: "(string list \<times> bool) option"
  ConflictsWith :: "string list"

text \<open>The zero value of the Go struct: every field a literal leaves out.\<close>

definition zeroSchema :: "ValueType \<Rightarrow> Schema" where
  "zeroSchema t = \<lparr>Type = t, Optional = False, Required = False, Default = None,
     DefaultFunc = None, Elem = None, ValidateFunc = None, ConflictsWith = []\<rparr>"

definition EnvDefaultFunc :: "string \<Rightarrow> val option \<Rightarrow> (string \<Rightarrow> string) \<Rightarrow> val option" where
  "EnvDefaultFunc k dv getenv = (if getenv k \<noteq> [] then Some (VString (getenv k)) else dv)"

definition ValidLevelsStrings :: "string list" where
  "ValidLevelsStrings = [''TRACE'', ''DEBUG'', ''INFO'', ''WARN'', ''ERROR'']"

text \<open>
  The Go literals \<^verbatim>\<open>"%s\n%s"\<close> and \<^verbatim>\<open>"(\n%s\n)"\<close> are interpreted strings: the
  \<^verbatim>\<open>\n\<close> in them is the newline character, byte 10.
\<close>

definition defaultJoiner :: string where
  "defaultJoiner = [CHR ''%'', CHR ''s'', CHR 0x0A, CHR ''%'', CHR ''s'']"

definition defaultIsolator :: string where
  "defaultIsolator = [CHR ''('', CHR 0x0A, CHR ''%'', CHR ''s'', CHR 0x0A, CHR '')'']"

definition ProviderSchema :: "(string \<times> Schema) list" where
  "ProviderSchema = [
    (''buffer_size'', (zeroSchema TypeInt)\<lparr>Optional := True,
        Default := Some (VInt (1 * 1024 * 1024))\<rparr>),
    (''log_provider_name'', (zeroSchema TypeString)\<lparr>Default := Some (VString []),
        Optional := True\<rparr>),
    (''log_level'', (zeroSchema TypeString)\<lparr>Optional := True,
        Default := Some (VString ''WARN''),
        ValidateFunc := Some (ValidLevelsStrings, True)\<rparr>),
    (''command_log_level'', (zeroSchema TypeString)\<lparr>Optional := True,
        Default := Some (VString ''INFO''),
        ValidateFunc := Some (ValidLevelsStrings, True)\<rparr>),
    (''command_log_width'', (zeroSchema TypeInt)\<lparr>Optional := True,
        Default := Some (VInt 1)\<rparr>),
    (''interpreter'', (zeroSchema TypeList)\<lparr>Optional := True,
        Elem := Some TypeString\<rparr>),
    (''working_directory'', (zeroSchema TypeString)\<lparr>Required := True,
        DefaultFunc := Some (EnvDefaultFunc ''PWD'' None)\<rparr>),
    (''include_parent_environment'', (zeroSchema TypeBool)\<lparr>Optional := True,
        Default := Some (VBool True)\<rparr>),
    (''command_prefix'', (zeroSchema TypeString)\<lparr>Optional := True,
        Default := Some (VString [])\<rparr>),
    (''command_joiner'', (zeroSchema TypeString)\<lparr>Optional := True,
        Default := Some (VString defaultJoiner)\<rparr>),
    (''command_isolator'', (zeroSchema TypeString)\<lparr>Optional := True,
        Default := Some (VString defaultIsolator)\<rparr>),
    (''create_command'', (zeroSchema TypeString)\<lparr>Required := True\<rparr>),
    (''read_command'', (zeroSchema TypeString)\<lparr>Required := True\<rparr>),
    (''delete_on_read_failure'', (zeroSchema TypeBool)\<lparr>Optional := True,
        Default := Some (VBool True)\<rparr>),
    (''read_format'', (zeroSchema TypeString)\<lparr>Optional := True,
        Default := Some (VString ''raw''),
        ValidateFunc := Some ([''raw'', ''base64''], False)\<rparr>),
    (''read_line_prefix'', (zeroSchema TypeString)\<lparr>Optional := True,
        Default := Some (VString [])\<rparr>),
    (''update_command'', (zeroSchema TypeString)\<lparr>Optional := True,
        Default := Some (VString [])\<rparr>),
    (''delete_before_update'', (zeroSchema TypeBool)\<lparr>Optional := True,
        Default := Some (VBool False)\<rparr>),
    (''create_before_update'', (zeroSchema TypeBool)\<lparr>Optional := True,
        Default := Some (VBool False),
        ConflictsWith := [''create_after_update'']\<rparr>),
    (''create_after_update'', (zeroSchema TypeBool)\<lparr>Optional := True,
        Default := Some (VBool False),
        ConflictsWith := [''create_before_update'']\<rparr>),
    (''exists_command'', (zeroSchema TypeString)\<lparr>Optional := True,
        Default := Some (VString [])\<rparr>),
    (''exists_expected_status'', (zeroSchema TypeInt)\<lparr>Optional := True,
        Default := Some (VInt 0)\<rparr>),
    (''delete_command'', (zeroSchema TypeString)\<lparr>Required := True\<rparr>)
  ]"

subsection \<open>Reading a key of the resource data\<close>

text \<open>
  The resource data holds the values the user set, by key. \<^verbatim>\<open>d.Get(key)\<close> is
  \<^verbatim>\<open>nil\<close> for a key the schema does not have; for a key of the schema it is the
  value the user set, else the schema's default (\<^verbatim>\<open>Default\<close>, then
  \<^verbatim>\<open>DefaultFunc\<close>), else the zero value of the key's type.
\<close>

type_synonym ResourceData = "string \<rightharpoonup> val"

definition ZeroValue :: "ValueType \<Rightarrow> val" where
  "ZeroValue t = (case t of TypeBool \<Rightarrow> VBool False | TypeInt \<Rightarrow> VInt 0
     | TypeString \<Rightarrow> VString [] | TypeList \<Rightarrow> VList [])"

definition DefaultValue :: "Schema \<Rightarrow> (string \<Rightarrow> string) \<Rightarrow> val option" where
  "DefaultValue s getenv = (case Default s of Some v \<Rightarrow> Some v
     | None \<Rightarrow> (case DefaultFunc s of Some f \<Rightarrow> f getenv | None \<Rightarrow> None))"

definition Get :: "Extern \<Rightarrow> ResourceData \<Rightarrow> string \<Rightarrow> val" where
  "Get x d key = (case map_of ProviderSchema key of None \<Rightarrow> VNil
     | Some s \<Rightarrow> (case d key of Some v \<Rightarrow> v
         | None \<Rightarrow> (case DefaultValue s (Getenv x) of Some v \<Rightarrow> v
             | None \<Rightarrow> ZeroValue (Type s))))"

subsection \<open>The resolved configuration\<close>

datatype error = ErrorString string

record Config =
  Logger :: hclog_Logger
  CommandLogLevel :: hclog_Level
  CommandLogWidth :: goint
  CommandIsolator :: string
  CommandJoiner :: string
  CommandPrefix :: string
  Interpreter :: "string list"
  WorkingDirectory :: string
  IncludeParentEnvironment :: bool
  BufferSize :: "64 word"
  CreateCommand :: string
  ReadCommand :: string
  DeleteOnReadFailure :: bool
  ReadFormat :: string
  ReadLinePrefix :: string
  UpdateCommand :: string
  DeleteBeforeUpdate :: bool
  CreateAfterUpdate :: bool
  CreateBeforeUpdate :: bool
  DeleteCommand :: string
  ExistsCommand :: string
  ExistsExpectedStatus :: goint
  LogProviderName :: string

text \<open>
  The loop \<^verbatim>\<open>for i, vI := range interpreterI { interpreter[i] = vI.(string) }\<close> over
  the slice \<^verbatim>\<open>make([]string, len(interpreterI))\<close>: \<open>i\<close> is the index, \<open>acc\<close> the slice
  written so far.
\<close>

fun rangeInterpreter :: "nat \<Rightarrow> val list \<Rightarrow> string list \<Rightarrow> string list option" where
  "rangeInterpreter i [] acc = Some acc"
| "rangeInterpreter i (vI # rest) acc =
     do { s \<leftarrow> asString vI; rangeInterpreter (Suc i) rest (acc[i := s]) }"

definition providerConfigure :: "Extern \<Rightarrow> ResourceData \<Rightarrow> (Config \<times> error option) option" where
  "providerConfigure x d = do {
     interpreterI \<leftarrow> asList (Get x d ''interpreter'');
     let interpreterI =
       (if length interpreterI = 0 then
          (let interpreterI1 = (if GOOS x = ''windows''
                                then [VString ''cmd'', VString ''/C''] else interpreterI);
               interpreterI2 = [VString ''/bin/sh'', VString ''-c'']
           in interpreterI2)
        else interpreterI);
     interpreter \<leftarrow> rangeInterpreter 0 interpreterI (replicate (length interpreterI) []);
     log_level \<leftarrow> asString (Get x d ''log_level'');
     let logger = hclog_New \<lparr>JSONFormat = (Getenv x ''TF_ACC'' = []), Output = Stderr,
                              Level = LevelFromString x log_level\<rparr>;
     dbu \<leftarrow> asBool (Get x d ''delete_before_update'');
     cau \<leftarrow> asBool (Get x d ''create_after_update'');
     cbu \<leftarrow> asBool (Get x d ''create_before_update'');
     update \<leftarrow> asString (Get x d ''update_command'');
     let (dbu, cau, cbu) = (if update = [] then (True, True, False) else (dbu, cau, cbu));
     command_log_level \<leftarrow> asString (Get x d ''command_log_level'');
     command_log_width \<leftarrow> asInt (Get x d ''command_log_width'');
     command_isolator \<leftarrow> asString (Get x d ''command_isolator'');
     command_joiner \<leftarrow> asString (Get x d ''command_joiner'');
     command_prefix \<leftarrow> asString (Get x d ''command_prefix'');
     working_directory \<leftarrow> asString (Get x d ''working_directory'');
     include_parent_environment \<leftarrow> asBool (Get x d ''include_parent_environment'');
     buffer_size \<leftarrow> asInt (Get x d ''buffer_size'');
     create_command \<leftarrow> asString (Get x d ''create_command'');
     read_command \<leftarrow> asString (Get x d ''read_command'');
     delete_on_read_failure \<leftarrow> asBool (Get x d ''delete_on_read_failure'');
     read_format \<leftarrow> asString (Get x d ''read_format'');
     read_line_prefix \<leftarrow> asString (Get x d ''read_line_prefix'');
     delete_command \<leftarrow> asString (Get x d ''delete_command'');
     exists_command \<leftarrow> asString (Get x d ''exists_command'');
     exists_expected_status \<leftarrow> asInt (Get x d ''exists_expected_status'');
     log_provider_name \<leftarrow> asString (Get x d ''log_provider_name'');
     Some (\<lparr>Logger = logger,
            CommandLogLevel = LevelFromString x command_log_level,
            CommandLogWidth = command_log_width,
            CommandIsolator = command_isolator,
            CommandJoiner = command_joiner,
            CommandPrefix = command_prefix,
            Interpreter = interpreter,
            WorkingDirectory = working_directory,
            IncludeParentEnvironment = include_parent_environment,
            BufferSize = int64 buffer_size,
            CreateCommand = create_command,
            ReadCommand = read_command,
            DeleteOnReadFailure = delete_on_read_failure,
            ReadFormat = read_format,
            ReadLinePrefix = read_line_prefix,
            UpdateCommand = update,
            DeleteBeforeUpdate = dbu,
            CreateAfterUpdate = cau,
            CreateBeforeUpdate = cbu,
            DeleteCommand = delete_command,
            ExistsCommand = exists_command,
            ExistsExpectedStatus = exists_expected_status,
            LogProviderName = log_provider_name\<rparr>, None)
   }"

subsection \<open>What the schema guarantees about the resource data\<close>

text \<open>
  The schema library only hands out values of the type the schema declares for a key: a
  list key holds a list whose elements have the type of \<^verbatim>\<open>Elem\<close>. \<open>wellTyped\<close> says
  so for the values the user set.
\<close>

definition primTyped :: "ValueType \<Rightarrow> val \<Rightarrow> bool" where
  "primTyped t v = (case (t, v) of
       (TypeBool, VBool b) \<Rightarrow> True
     | (TypeInt, VInt i) \<Rightarrow> True
     | (TypeString, VString s) \<Rightarrow> True
     | _ \<Rightarrow> False)"

definition hasType :: "Schema \<Rightarrow> val \<Rightarrow> bool" where
  "hasType s v = (case v of
       VList vs \<Rightarrow> Type s = TypeList \<and>
         (case Elem s of Some t \<Rightarrow> list_all (primTyped t) vs | None \<Rightarrow> False)
     | _ \<Rightarrow> primTyped (Type s) v)"

definition wellTyped :: "ResourceData \<Rightarrow> bool" where
  "wellTyped d = list_all (\<lambda>(key, s). case d key of None \<Rightarrow> True | Some v \<Rightarrow> hasType s v)
     ProviderSchema"

text \<open>
  \<^verbatim>\<open>ConflictsWith\<close> is checked by the schema library when it validates the user's
  configuration, before \<^verbatim>\<open>providerConfigure\<close> runs: a key that is set is rejected when
  a key it conflicts with is set too. \<^verbatim>\<open>providerConfigure\<close> itself does not look at it.
\<close>

definition validateConflictingAttributes :: "Schema \<Rightarrow> ResourceData \<Rightarrow> bool" where
  "validateConflictingAttributes s d =
     list_all (\<lambda>conflictingKey. d conflictingKey = None) (ConflictsWith s)"

definition conflictsValid :: "ResourceData \<Rightarrow> bool" where
  "conflictsValid d =
     list_all (\<lambda>(key, s). d key = None \<or> validateConflictingAttributes s d) ProviderSchema"

text \<open>
  Two resource data agree except on \<open>keys\<close> when every other key of the schema has the
  same user-set value (or none) in both.
\<close>

definition agreeExcept :: "string list \<Rightarrow> ResourceData \<Rightarrow> ResourceData \<Rightarrow> bool" where
  "agreeExcept keys d1 d2 =
     list_all (\<lambda>(key, s). key \<in> set keys \<or> d1 key = d2 key) ProviderSchema"

definition loggingKeys :: "string list" where
  "loggingKeys = [''log_level'', ''command_log_level'', ''command_log_width'',
     ''log_provider_name'']"

definition updateKeys :: "string list" where
  "updateKeys = [''update_command'', ''delete_before_update'', ''create_before_update'',
     ''create_after_update'']"

definition bufferSizePositive :: "Config \<Rightarrow> bool" where
  "bufferSizePositive c = (0 < sint (BufferSize c))"

subsection \<open>The lifecycle core, as the specification describes it\<close>

text \<open>
  The command composer, the process runner and the lifecycle operations are not part of
  \<^verbatim>\<open>provider.go\<close>. The definitions of this subsection follow the specification's
  sections 3, 4.1, 4.2 and 4.4.
\<close>

datatype CoreError =
  ConfigError | SpawnError | EnvironmentError | CommandError | DecodeError | CancelledError

record ExecutionResult =
  exitCode :: goint
  stdout :: string
  truncated :: bool

text \<open>
  Modelled from the spec: the number of format placeholders of a template, which the
  command composer (missing from the source) requires to be two for \<^verbatim>\<open>CommandJoiner\<close>
  and one for \<^verbatim>\<open>CommandIsolator\<close>. A placeholder is a percent sign followed by a verb
  character, as in \<^verbatim>\<open>%s\<close>; two percent signs are a literal percent sign.
\<close>

fun placeholderCount :: "string \<Rightarrow> nat" where
  "placeholderCount [] = 0"
| "placeholderCount [c] = 0"
| "placeholderCount (c # c' # rest) =
     (if c = CHR ''%'' then
        (if c' = CHR ''%'' then placeholderCount rest else Suc (placeholderCount rest))
      else placeholderCount (c' # rest))"

text \<open>
  Modelled from the spec: filling the placeholders of a template with the arguments, in
  order (the formatting step of the missing command composer). A placeholder with no
  argument left is dropped.
\<close>

fun sprintf :: "string \<Rightarrow> string list \<Rightarrow> string" where
  "sprintf [] args = []"
| "sprintf [c] args = [c]"
| "sprintf (c # c' # rest) args =
     (if c = CHR ''%'' then
        (if c' = CHR ''%'' then CHR ''%'' # sprintf rest args
         else (case args of [] \<Rightarrow> sprintf rest [] | a # as \<Rightarrow> a @ sprintf rest as))
      else c # sprintf (c' # rest) args)"

text \<open>
  Modelled from the spec: the command composer \<^verbatim>\<open>compose\<close> of section 4.1, missing from
  the source. No command gives the empty text; one command gets the prefix (when the
  prefix is not empty); two or more are joined pairwise from the left with
  \<^verbatim>\<open>CommandJoiner\<close>, wrapped once with \<^verbatim>\<open>CommandIsolator\<close> and prefixed once, and a
  template with the wrong number of placeholders is a \<open>ConfigError\<close>.
\<close>

definition compose :: "Config \<Rightarrow> string list \<Rightarrow> CoreError + string" where
  "compose c commands = (case commands of
       [] \<Rightarrow> Inr []
     | [command] \<Rightarrow>
         Inr (if CommandPrefix c \<noteq> [] then CommandPrefix c @ command else command)
     | command # rest \<Rightarrow>
         if placeholderCount (CommandJoiner c) \<noteq> 2 then Inl ConfigError
         else if placeholderCount (CommandIsolator c) \<noteq> 1 then Inl ConfigError
         else Inr (CommandPrefix c @
                sprintf (CommandIsolator c)
                  [foldl (\<lambda>a b. sprintf (CommandJoiner c) [a, b]) command rest]))"

text \<open>
  Modelled from the spec: the \<^verbatim>\<open>Exists\<close> operation of section 4.4, missing from the
  source. It composes and runs \<^verbatim>\<open>ExistsCommand\<close>; the resource is present iff the exit
  code equals \<^verbatim>\<open>ExistsExpectedStatus\<close>; a failure of the process runner \<open>run\<close> to
  produce an exit code is the operation's error. The process runner is a parameter.
\<close>

definition Exists :: "(string \<Rightarrow> CoreError + ExecutionResult) \<Rightarrow> Config \<Rightarrow> CoreError + bool" where
  "Exists run c = (case compose c [ExistsCommand c] of
       Inl err \<Rightarrow> Inl err
     | Inr composedCommand \<Rightarrow> (case run composedCommand of
           Inl err \<Rightarrow> Inl err
         | Inr r \<Rightarrow> Inr (exitCode r = ExistsExpectedStatus c)))"

subsection \<open>Concrete inputs\<close>

definition exampleExtern :: Extern where
  "exampleExtern = \<lparr>GOOS = ''windows'',
     Getenv = (\<lambda>k. if k = ''PWD'' then ''/work'' else []),
     LevelFromString = (\<lambda>s. if s = ''WARN'' then Warn else if s = ''INFO'' then Info
                              else if s = ''DEBUG'' then Debug else NoLevel)\<rparr>"

definition dataBase :: ResourceData where
  "dataBase = [''create_command'' \<mapsto> VString ''touch f'',
               ''read_command'' \<mapsto> VString ''cat f'',
               ''delete_command'' \<mapsto> VString ''rm f'']"

definition dataEmptyUpdate :: ResourceData where
  "dataEmptyUpdate = dataBase(''delete_before_update'' \<mapsto> VBool False,
     ''create_before_update'' \<mapsto> VBool True)"

definition dataBothCreates :: ResourceData where
  "dataBothCreates = dataBase(''update_command'' \<mapsto> VString ''echo u'',
     ''create_before_update'' \<mapsto> VBool True,
     ''create_after_update'' \<mapsto> VBool True)"

definition dataCreateBefore :: ResourceData where
  "dataCreateBefore = dataBase(''update_command'' \<mapsto> VString ''echo u'',
     ''create_before_update'' \<mapsto> VBool True)"

definition dataBash :: ResourceData where
  "dataBash = dataBase(''interpreter'' \<mapsto> VList [VString ''bash'', VString ''-e'', VString ''-c''])"

definition dataNoBuffer :: ResourceData where
  "dataNoBuffer = dataBase(''buffer_size'' \<mapsto> VInt 0)"

definition dataMalformed :: ResourceData where
  "dataMalformed = dataBase(''command_joiner'' \<mapsto> VString ''no placeholder'',
     ''command_isolator'' \<mapsto> VString ''%s %s %s'',
     ''buffer_size'' \<mapsto> VInt (- 5))"

definition dataQuiet :: ResourceData where
  "dataQuiet = dataBase(''log_level'' \<mapsto> VString ''ERROR'',
     ''log_provider_name'' \<mapsto> VString ''quiet'')"

definition dataLoud :: ResourceData where
  "dataLoud = dataBase(''log_level'' \<mapsto> VString ''DEBUG'',
     ''command_log_level'' \<mapsto> VString ''DEBUG'',
     ''command_log_width'' \<mapsto> VInt 80,
     ''log_provider_name'' \<mapsto> VString ''loud'')"

definition dataUpdate :: ResourceData where
  "dataUpdate = dataBase(''update_command'' \<mapsto> VString ''echo u'',
     ''delete_before_update'' \<mapsto> VBool True,
     ''create_after_update'' \<mapsto> VBool True)"

definition dataExists :: ResourceData where
  "dataExists = dataBase(''exists_command'' \<mapsto> VString ''test -e f'')"

definition runExit :: "goint \<Rightarrow> string \<Rightarrow> CoreError + ExecutionResult" where
  "runExit code composedCommand = Inr \<lparr>exitCode = code, stdout = [], truncated = False\<rparr>"

section \<open>Properties of the configuration resolution\<close>

subsection \<open>Type assertions and the interpreter loop\<close>

lemma asList_Some [simp]: "asList v = Some xs \<longleftrightarrow> v = VList xs"
  by (cases v) (simp_all add: asList_def)

lemma asString_Some [simp]: "asString v = Some s \<longleftrightarrow> v = VString s"
  by (cases v) (simp_all add: asString_def)

lemma asBool_Some [simp]: "asBool v = Some b \<longleftrightarrow> v = VBool b"
  by (cases v) (simp_all add: asBool_def)

lemma asInt_Some [simp]: "asInt v = Some i \<longleftrightarrow> v = VInt i"
  by (cases v) (simp_all add: asInt_def)

lemma int64_id [simp]: "int64 i = i"
  by (simp add: int64_def)

lemma rangeInterpreter_strings:
  "i + length ss \<le> length acc \<Longrightarrow>
   rangeInterpreter i (map VString ss) acc = Some (take i acc @ ss @ drop (i + length ss) acc)"
proof (induction ss arbitrary: i acc)
  case Nil
  then show ?case by simp
next
  case (Cons s ss)
  then have "Suc i + length ss \<le> length (acc[i := s])" and "i < length acc" by simp_all
  with Cons.IH[of "Suc i" "acc[i := s]"] show ?case
    by (simp add: asString_def take_Suc_conv_app_nth)
qed

lemma rangeInterpreter_SomeD:
  "rangeInterpreter i vs acc = Some r \<Longrightarrow> \<exists>ss. vs = map VString ss"
proof (induction vs arbitrary: i acc)
  case Nil
  then show ?case by simp
next
  case (Cons v vs)
  then obtain s where v: "v = VString s" and r: "rangeInterpreter (Suc i) vs (acc[i := s]) = Some r"
    by (auto simp: bind_eq_Some_conv)
  from Cons.IH[OF r] obtain ss where "vs = map VString ss" by blast
  with v have "v # vs = map VString (s # ss)" by simp
  then show ?case ..
qed

lemma rangeInterpreter_make:
  "rangeInterpreter 0 vs (replicate (length vs) []) = Some r \<longleftrightarrow> vs = map VString r"
proof
  assume a: "rangeInterpreter 0 vs (replicate (length vs) []) = Some r"
  then obtain ss where ss: "vs = map VString ss" by (blast dest: rangeInterpreter_SomeD)
  with a rangeInterpreter_strings[of 0 ss "replicate (length ss) []"] show "vs = map VString r"
    by simp
next
  assume "vs = map VString r"
  with rangeInterpreter_strings[of 0 r "replicate (length r) []"]
  show "rangeInterpreter 0 vs (replicate (length vs) []) = Some r" by simp
qed

lemma Get_simps:
  "Get x d ''buffer_size'' = (case d ''buffer_size'' of Some v \<Rightarrow> v | None \<Rightarrow> VInt (1 * 1024 * 1024))"
  "Get x d ''log_provider_name'' = (case d ''log_provider_name'' of Some v \<Rightarrow> v | None \<Rightarrow> VString [])"
  "Get x d ''log_level'' = (case d ''log_level'' of Some v \<Rightarrow> v | None \<Rightarrow> VString ''WARN'')"
  "Get x d ''command_log_level'' = (case d ''command_log_level'' of Some v \<Rightarrow> v | None \<Rightarrow> VString ''INFO'')"
  "Get x d ''command_log_width'' = (case d ''command_log_width'' of Some v \<Rightarrow> v | None \<Rightarrow> VInt 1)"
  "Get x d ''interpreter'' = (case d ''interpreter'' of Some v \<Rightarrow> v | None \<Rightarrow> VList [])"
  "Get x d ''working_directory'' = (case d ''working_directory'' of Some v \<Rightarrow> v | None \<Rightarrow> (if Getenv x ''PWD'' \<noteq> [] then VString (Getenv x ''PWD'') else VString []))"
  "Get x d ''include_parent_environment'' = (case d ''include_parent_environment'' of Some v \<Rightarrow> v | None \<Rightarrow> VBool True)"
  "Get x d ''command_prefix'' = (case d ''command_prefix'' of Some v \<Rightarrow> v | None \<Rightarrow> VString [])"
  "Get x d ''command_joiner'' = (case d ''command_joiner'' of Some v \<Rightarrow> v | None \<Rightarrow> VString defaultJoiner)"
  "Get x d ''command_isolator'' = (case d ''command_isolator'' of Some v \<Rightarrow> v | None \<Rightarrow> VString defaultIsolator)"
  "Get x d ''create_command'' = (case d ''create_command'' of Some v \<Rightarrow> v | None \<Rightarrow> VString [])"
  "Get x d ''read_command'' = (case d ''read_command'' of Some v \<Rightarrow> v | None \<Rightarrow> VString [])"
  "Get x d ''delete_on_read_failure'' = (case d ''delete_on_read_failure'' of Some v \<Rightarrow> v | None \<Rightarrow> VBool True)"
  "Get x d ''read_format'' = (case d ''read_format'' of Some v \<Rightarrow> v | None \<Rightarrow> VString ''raw'')"
  "Get x d ''read_line_prefix'' = (case d ''read_line_prefix'' of Some v \<Rightarrow> v | None \<Rightarrow> VString [])"
  "Get x d ''update_command'' = (case d ''update_command'' of Some v \<Rightarrow> v | None \<Rightarrow> VString [])"
  "Get x d ''delete_before_update'' = (case d ''delete_before_update'' of Some v \<Rightarrow> v | None \<Rightarrow> VBool False)"
  "Get x d ''create_before_update'' = (case d ''create_before_update'' of Some v \<Rightarrow> v | None \<Rightarrow> VBool False)"
  "Get x d ''create_after_update'' = (case d ''create_after_update'' of Some v \<Rightarrow> v | None \<Rightarrow> VBool False)"
  "Get x d ''exists_command'' = (case d ''exists_command'' of Some v \<Rightarrow> v | None \<Rightarrow> VString [])"
  "Get x d ''exists_expected_status'' = (case d ''exists_expected_status'' of Some v \<Rightarrow> v | None \<Rightarrow> VInt 0)"
  "Get x d ''delete_command'' = (case d ''delete_command'' of Some v \<Rightarrow> v | None \<Rightarrow> VString [])"
  by (simp_all add: Get_def ProviderSchema_def zeroSchema_def DefaultValue_def ZeroValue_def
      EnvDefaultFunc_def split: option.split)

lemma providerConfigure_all:
  "providerConfigure x d = Some (c, e) \<Longrightarrow>
    (e = None) \<and>
    (Get x d ''interpreter'' = VList [] \<longrightarrow> Interpreter c = [''/bin/sh'', ''-c'']) \<and>
    (Get x d ''interpreter'' \<noteq> VList [] \<longrightarrow>
           Get x d ''interpreter'' = VList (map VString (Interpreter c))) \<and>
    (\<exists>l. Get x d ''log_level'' = VString l \<and>
           Logger c = \<lparr>JSONFormat = (Getenv x ''TF_ACC'' = []), Output = Stderr,
                        Level = LevelFromString x l\<rparr>) \<and>
    (Get x d ''update_command'' = VString (UpdateCommand c)) \<and>
    (UpdateCommand c = [] \<longrightarrow>
           DeleteBeforeUpdate c \<and> CreateAfterUpdate c \<and> \<not> CreateBeforeUpdate c) \<and>
    (\<exists>dbu. Get x d ''delete_before_update'' = VBool dbu \<and>
           (UpdateCommand c \<noteq> [] \<longrightarrow> DeleteBeforeUpdate c = dbu)) \<and>
    (\<exists>cau. Get x d ''create_after_update'' = VBool cau \<and>
           (UpdateCommand c \<noteq> [] \<longrightarrow> CreateAfterUpdate c = cau)) \<and>
    (\<exists>cbu. Get x d ''create_before_update'' = VBool cbu \<and>
           (UpdateCommand c \<noteq> [] \<longrightarrow> CreateBeforeUpdate c = cbu)) \<and>
    (\<exists>l. Get x d ''command_log_level'' = VString l \<and>
           CommandLogLevel c = LevelFromString x l) \<and>
    (Get x d ''command_log_width'' = VInt (CommandLogWidth c)) \<and>
    (Get x d ''command_isolator'' = VString (CommandIsolator c)) \<and>
    (Get x d ''command_joiner'' = VString (CommandJoiner c)) \<and>
    (Get x d ''command_prefix'' = VString (CommandPrefix c)) \<and>
    (Get x d ''working_directory'' = VString (WorkingDirectory c)) \<and>
    (Get x d ''include_parent_environment'' = VBool (IncludeParentEnvironment c)) \<and>
    (Get x d ''buffer_size'' = VInt (BufferSize c)) \<and>
    (Get x d ''create_command'' = VString (CreateCommand c)) \<and>
    (Get x d ''read_command'' = VString (ReadCommand c)) \<and>
    (Get x d ''delete_on_read_failure'' = VBool (DeleteOnReadFailure c)) \<and>
    (Get x d ''read_format'' = VString (ReadFormat c)) \<and>
    (Get x d ''read_line_prefix'' = VString (ReadLinePrefix c)) \<and>
    (Get x d ''delete_command'' = VString (DeleteCommand c)) \<and>
    (Get x d ''exists_command'' = VString (ExistsCommand c)) \<and>
    (Get x d ''exists_expected_status'' = VInt (ExistsExpectedStatus c)) \<and>
    (Get x d ''log_provider_name'' = VString (LogProviderName c))"
  apply (simp add: providerConfigure_def bind_eq_Some_conv rangeInterpreter_make Let_def
        hclog_New_def split_def)
  apply (elim exE conjE)
  apply hypsubst
  apply (auto simp add: Let_def Cons_eq_map_conv split: if_splits)
  done

lemma providerConfigure_fields:
  assumes "providerConfigure x d = Some (c, e)"
  shows "e = None"
    and "Get x d ''interpreter'' = VList [] \<Longrightarrow> Interpreter c = [''/bin/sh'', ''-c'']"
    and "Get x d ''interpreter'' \<noteq> VList [] \<Longrightarrow>
           Get x d ''interpreter'' = VList (map VString (Interpreter c))"
    and "\<exists>l. Get x d ''log_level'' = VString l \<and>
           Logger c = \<lparr>JSONFormat = (Getenv x ''TF_ACC'' = []), Output = Stderr,
                        Level = LevelFromString x l\<rparr>"
    and "Get x d ''update_command'' = VString (UpdateCommand c)"
    and "UpdateCommand c = [] \<Longrightarrow>
           DeleteBeforeUpdate c \<and> CreateAfterUpdate c \<and> \<not> CreateBeforeUpdate c"
    and "\<exists>dbu. Get x d ''delete_before_update'' = VBool dbu \<and>
           (UpdateCommand c \<noteq> [] \<longrightarrow> DeleteBeforeUpdate c = dbu)"
    and "\<exists>cau. Get x d ''create_after_update'' = VBool cau \<and>
           (UpdateCommand c \<noteq> [] \<longrightarrow> CreateAfterUpdate c = cau)"
    and "\<exists>cbu. Get x d ''create_before_update'' = VBool cbu \<and>
           (UpdateCommand c \<noteq> [] \<longrightarrow> CreateBeforeUpdate c = cbu)"
    and "\<exists>l. Get x d ''command_log_level'' = VString l \<and>
           CommandLogLevel c = LevelFromString x l"
    and "Get x d ''command_log_width'' = VInt (CommandLogWidth c)"
    and "Get x d ''command_isolator'' = VString (CommandIsolator c)"
    and "Get x d ''command_joiner'' = VString (CommandJoiner c)"
    and "Get x d ''command_prefix'' = VString (CommandPrefix c)"
    and "Get x d ''working_directory'' = VString (WorkingDirectory c)"
    and "Get x d ''include_parent_environment'' = VBool (IncludeParentEnvironment c)"
    and "Get x d ''buffer_size'' = VInt (BufferSize c)"
    and "Get x d ''create_command'' = VString (CreateCommand c)"
    and "Get x d ''read_command'' = VString (ReadCommand c)"
    and "Get x d ''delete_on_read_failure'' = VBool (DeleteOnReadFailure c)"
    and "Get x d ''read_format'' = VString (ReadFormat c)"
    and "Get x d ''read_line_prefix'' = VString (ReadLinePrefix c)"
    and "Get x d ''delete_command'' = VString (DeleteCommand c)"
    and "Get x d ''exists_command'' = VString (ExistsCommand c)"
    and "Get x d ''exists_expected_status'' = VInt (ExistsExpectedStatus c)"
    and "Get x d ''log_provider_name'' = VString (LogProviderName c)"
  using providerConfigure_all[OF assms] by simp_all

lemma hasType_String: "Type s = TypeString \<Longrightarrow> hasType s v \<longleftrightarrow> (\<exists>t. v = VString t)"
  by (cases v) (simp_all add: hasType_def primTyped_def)

lemma hasType_Bool: "Type s = TypeBool \<Longrightarrow> hasType s v \<longleftrightarrow> (\<exists>b. v = VBool b)"
  by (cases v) (simp_all add: hasType_def primTyped_def)

lemma hasType_Int: "Type s = TypeInt \<Longrightarrow> hasType s v \<longleftrightarrow> (\<exists>i. v = VInt i)"
  by (cases v) (simp_all add: hasType_def primTyped_def)

lemma primTyped_String: "primTyped TypeString v \<longleftrightarrow> (\<exists>t. v = VString t)"
  by (cases v) (simp_all add: primTyped_def)

lemma hasType_StringList:
  assumes "Type s = TypeList" and "Elem s = Some TypeString"
  shows "hasType s v \<longleftrightarrow> (\<exists>ss. v = VList (map VString ss))"
proof (cases v)
  case (VList vs)
  with assms show ?thesis
    by (simp add: hasType_def list_all_iff primTyped_String ex_map_conv)
qed (simp_all add: assms hasType_def primTyped_def)

lemma distinct_ProviderSchema: "distinct (map fst ProviderSchema)"
  by (simp add: ProviderSchema_def)

lemma defaults_typed:
  "list_all (\<lambda>(key, s). hasType s (case DefaultValue s g of Some v \<Rightarrow> v
      | None \<Rightarrow> ZeroValue (Type s))) ProviderSchema"
  by (simp add: ProviderSchema_def zeroSchema_def DefaultValue_def ZeroValue_def
      EnvDefaultFunc_def hasType_def primTyped_def)

lemma Get_typed_all:
  assumes "wellTyped d"
  shows "list_all (\<lambda>(key, s). hasType s (Get x d key)) ProviderSchema"
proof -
  have "hasType s (Get x d key)" if mem: "(key, s) \<in> set ProviderSchema" for key s
  proof -
    from mem have look: "map_of ProviderSchema key = Some s"
      by (simp add: distinct_ProviderSchema)
    show ?thesis
    proof (cases "d key")
      case None
      from defaults_typed[of "Getenv x"] mem
      have "hasType s (case DefaultValue s (Getenv x) of Some v \<Rightarrow> v
          | None \<Rightarrow> ZeroValue (Type s))"
        by (auto simp: list_all_iff)
      with None look show ?thesis by (simp add: Get_def)
    next
      case (Some v)
      from assms mem Some have "hasType s v"
        by (auto simp: wellTyped_def list_all_iff)
      with Some look show ?thesis by (simp add: Get_def)
    qed
  qed
  then show ?thesis by (auto simp: list_all_iff)
qed

lemma Get_typed:
  assumes "wellTyped d"
  shows "\<exists>ss. Get x d ''interpreter'' = VList (map VString ss)"
    and "\<exists>v. Get x d ''buffer_size'' = VInt v"
    and "\<exists>v. Get x d ''log_provider_name'' = VString v"
    and "\<exists>v. Get x d ''log_level'' = VString v"
    and "\<exists>v. Get x d ''command_log_level'' = VString v"
    and "\<exists>v. Get x d ''command_log_width'' = VInt v"
    and "\<exists>v. Get x d ''working_directory'' = VString v"
    and "\<exists>v. Get x d ''include_parent_environment'' = VBool v"
    and "\<exists>v. Get x d ''command_prefix'' = VString v"
    and "\<exists>v. Get x d ''command_joiner'' = VString v"
    and "\<exists>v. Get x d ''command_isolator'' = VString v"
    and "\<exists>v. Get x d ''create_command'' = VString v"
    and "\<exists>v. Get x d ''read_command'' = VString v"
    and "\<exists>v. Get x d ''delete_on_read_failure'' = VBool v"
    and "\<exists>v. Get x d ''read_format'' = VString v"
    and "\<exists>v. Get x d ''read_line_prefix'' = VString v"
    and "\<exists>v. Get x d ''update_command'' = VString v"
    and "\<exists>v. Get x d ''delete_before_update'' = VBool v"
    and "\<exists>v. Get x d ''create_before_update'' = VBool v"
    and "\<exists>v. Get x d ''create_after_update'' = VBool v"
    and "\<exists>v. Get x d ''exists_command'' = VString v"
    and "\<exists>v. Get x d ''exists_expected_status'' = VInt v"
    and "\<exists>v. Get x d ''delete_command'' = VString v"
  using Get_typed_all[OF assms, of x]
  by (simp_all add: ProviderSchema_def zeroSchema_def hasType_String hasType_Bool hasType_Int
      hasType_StringList)

lemma rangeInterpreter_map [simp]:
  "rangeInterpreter 0 (map VString ss) (replicate (length ss) []) = Some ss"
  using rangeInterpreter_strings[of 0 ss "replicate (length ss) []"] by simp

lemma providerConfigure_wellTyped:
  assumes "wellTyped d"
  shows "\<exists>c. providerConfigure x d = Some (c, None)"
proof -
  note t = Get_typed[OF assms, of x]
  from t(1) obtain ss where i: "Get x d ''interpreter'' = VList (map VString ss)" ..
  from t(2-) show ?thesis
    apply (elim exE)
    apply (simp add: providerConfigure_def i asList_def asString_def asBool_def asInt_def
        Let_def)
    done
qed

subsection \<open>The claims about the resolved configuration\<close>

lemmas wellTyped_eval = wellTyped_def ProviderSchema_def zeroSchema_def hasType_def primTyped_def

text \<open>
  Claim C1. When the update command read from the resource data is the empty string, the
  resolved configuration has \<open>DeleteBeforeUpdate\<close> and \<open>CreateAfterUpdate\<close> set and
  \<open>CreateBeforeUpdate\<close> cleared, whatever the three booleans of the resource data are.
\<close>
theorem empty_update_degrades:
  assumes "providerConfigure x d = Some (c, e)"
    and "Get x d ''update_command'' = VString []"
  shows "DeleteBeforeUpdate c \<and> CreateAfterUpdate c \<and> \<not> CreateBeforeUpdate c"
proof -
  from providerConfigure_fields(5)[OF assms(1)] assms(2) have "UpdateCommand c = []"
    by simp
  then show ?thesis
    by (rule providerConfigure_fields(6)[OF assms(1)])
qed

theorem empty_update_degrades_witness:
  "\<exists>c. providerConfigure exampleExtern dataEmptyUpdate = Some (c, None) \<and>
       dataEmptyUpdate ''delete_before_update'' = Some (VBool False) \<and>
       dataEmptyUpdate ''create_before_update'' = Some (VBool True) \<and>
       Get exampleExtern dataEmptyUpdate ''update_command'' = VString [] \<and>
       DeleteBeforeUpdate c \<and> CreateAfterUpdate c \<and> \<not> CreateBeforeUpdate c"
proof -
  have "wellTyped dataEmptyUpdate"
    by (simp add: wellTyped_eval dataEmptyUpdate_def dataBase_def)
  then obtain c where pc: "providerConfigure exampleExtern dataEmptyUpdate = Some (c, None)"
    using providerConfigure_wellTyped by blast
  have u: "Get exampleExtern dataEmptyUpdate ''update_command'' = VString []"
    by (simp add: Get_simps dataEmptyUpdate_def dataBase_def)
  from empty_update_degrades[OF pc u] pc u show ?thesis
    by (simp add: dataEmptyUpdate_def)
qed

text \<open>
  Claim C3. The interpreter of a resolved configuration is never the empty list. A
  non-empty list of the resource data is taken over element by element, in order; for an
  empty list, which is also what an absent key reads as, the default
  \<^verbatim>\<open>["/bin/sh", "-c"]\<close> is substituted.
\<close>
theorem interpreter_nonempty:
  assumes "providerConfigure x d = Some (c, e)"
  shows "Interpreter c \<noteq> [] \<and>
    (\<forall>vs. Get x d ''interpreter'' = VList vs \<and> vs \<noteq> [] \<longrightarrow> vs = map VString (Interpreter c)) \<and>
    (Get x d ''interpreter'' = VList [] \<longrightarrow> Interpreter c = [''/bin/sh'', ''-c'']) \<and>
    (d ''interpreter'' = None \<longrightarrow> Get x d ''interpreter'' = VList [])"
proof (cases "Get x d ''interpreter'' = VList []")
  case True
  with providerConfigure_fields(2)[OF assms] show ?thesis
    by (simp add: Get_simps)
next
  case False
  with providerConfigure_fields(3)[OF assms] show ?thesis
    by (auto simp: Get_simps)
qed

theorem interpreter_nonempty_witness:
  "\<exists>c. providerConfigure exampleExtern dataBash = Some (c, None) \<and>
       Get exampleExtern dataBash ''interpreter'' =
         VList [VString ''bash'', VString ''-e'', VString ''-c''] \<and>
       Interpreter c = [''bash'', ''-e'', ''-c'']"
proof -
  have "wellTyped dataBash"
    by (simp add: wellTyped_eval dataBash_def dataBase_def)
  then obtain c where pc: "providerConfigure exampleExtern dataBash = Some (c, None)"
    using providerConfigure_wellTyped by blast
  have g: "Get exampleExtern dataBash ''interpreter'' =
      VList [VString ''bash'', VString ''-e'', VString ''-c'']"
    by (simp add: Get_simps dataBash_def)
  from interpreter_nonempty[OF pc] g
  have "[VString ''bash'', VString ''-e'', VString ''-c''] = map VString (Interpreter c)"
    by simp
  then have "Interpreter c = [''bash'', ''-e'', ''-c'']"
    by (auto simp: Cons_eq_map_conv)
  with pc g show ?thesis by simp
qed

text \<open>
  Claim C4. With no interpreter given, the resolved interpreter is
  \<^verbatim>\<open>["/bin/sh", "-c"]\<close> for every value of \<^verbatim>\<open>runtime.GOOS\<close>: the assignment of
  \<^verbatim>\<open>["cmd", "/C"]\<close> in the Windows branch is overwritten by the assignment after it
  and never reaches the configuration.
\<close>
theorem default_interpreter_on_every_os:
  assumes "providerConfigure x d = Some (c, e)"
    and "Get x d ''interpreter'' = VList []"
  shows "Interpreter c = [''/bin/sh'', ''-c''] \<and> Interpreter c \<noteq> [''cmd'', ''/C'']"
  using providerConfigure_fields(2)[OF assms] by simp

theorem default_interpreter_on_windows_witness:
  "GOOS exampleExtern = ''windows'' \<and>
   (\<exists>c. providerConfigure exampleExtern dataBase = Some (c, None) \<and>
        Get exampleExtern dataBase ''interpreter'' = VList [] \<and>
        Interpreter c = [''/bin/sh'', ''-c''])"
proof -
  have "wellTyped dataBase"
    by (simp add: wellTyped_eval dataBase_def)
  then obtain c where pc: "providerConfigure exampleExtern dataBase = Some (c, None)"
    using providerConfigure_wellTyped by blast
  have g: "Get exampleExtern dataBase ''interpreter'' = VList []"
    by (simp add: Get_simps dataBase_def)
  from default_interpreter_on_every_os[OF pc g] pc g show ?thesis
    by (simp add: exampleExtern_def)
qed

text \<open>
  Claim C6. \<^verbatim>\<open>providerConfigure\<close> always succeeds: for every resource data (holding
  values of the types the schema declares) it returns a configuration and the error
  \<^verbatim>\<open>nil\<close>; it checks neither the templates nor the buffer size.
\<close>
theorem providerConfigure_always_succeeds:
  "wellTyped d \<Longrightarrow> \<exists>c. providerConfigure x d = Some (c, None)"
  by (rule providerConfigure_wellTyped)

theorem providerConfigure_always_succeeds_witness:
  "wellTyped dataMalformed \<and>
   (\<exists>c. providerConfigure exampleExtern dataMalformed = Some (c, None))"
proof -
  have w: "wellTyped dataMalformed"
    by (simp add: wellTyped_eval dataMalformed_def dataBase_def)
  from providerConfigure_always_succeeds[OF w] w show ?thesis by simp
qed

end
